theory Spec2Isabelle
  imports Complex_Main
begin

section \<open>Rank-based segment cost (\<open>ruptures/costs/costrank.py\<close>)\<close>

text \<open>
  The class \<open>CostRank\<close> has three fields (\<open>cov\<close>, \<open>ranks\<close>, \<open>min_size\<close>), a
  constructor, \<open>fit\<close> and \<open>error\<close>. Both methods are written with numpy array
  operations, so the development first models the arrays and the operations the two
  methods call, then the methods themselves, line by line.
\<close>

subsection \<open>Floating-point values\<close>

text \<open>
  A float64 is modelled as an exact rational or one of the IEEE special values. Rounding
  and overflow of finite values are not modelled; the special values are, because the
  source reaches them (\<open>0 * inf\<close> inside \<open>np.cov\<close>, \<open>0 / 0\<close> in a mean of no rows).
  Both zeros are \<open>Fin 0\<close>: every zero divisor of the source is a count or a length
  converted to float, hence \<open>+0.0\<close>.
\<close>

datatype fl = Fin rat | PInf | NInf | NaN

fun fl_neg :: "fl \<Rightarrow> fl" where
  "fl_neg (Fin a) = Fin (- a)"
| "fl_neg PInf = NInf"
| "fl_neg NInf = PInf"
| "fl_neg NaN = NaN"

fun fl_add :: "fl \<Rightarrow> fl \<Rightarrow> fl" where
  "fl_add NaN _ = NaN"
| "fl_add _ NaN = NaN"
| "fl_add (Fin a) (Fin b) = Fin (a + b)"
| "fl_add (Fin a) PInf = PInf"
| "fl_add (Fin a) NInf = NInf"
| "fl_add PInf (Fin b) = PInf"
| "fl_add NInf (Fin b) = NInf"
| "fl_add PInf PInf = PInf"
| "fl_add NInf NInf = NInf"
| "fl_add PInf NInf = NaN"
| "fl_add NInf PInf = NaN"

definition fl_sub :: "fl \<Rightarrow> fl \<Rightarrow> fl" where
  "fl_sub a b = fl_add a (fl_neg b)"

definition inf_signed :: "rat \<Rightarrow> fl" where
  "inf_signed s = (if s = 0 then NaN else if 0 < s then PInf else NInf)"

fun fl_mul :: "fl \<Rightarrow> fl \<Rightarrow> fl" where
  "fl_mul NaN _ = NaN"
| "fl_mul _ NaN = NaN"
| "fl_mul (Fin a) (Fin b) = Fin (a * b)"
| "fl_mul (Fin a) PInf = inf_signed a"
| "fl_mul (Fin a) NInf = inf_signed (- a)"
| "fl_mul PInf (Fin b) = inf_signed b"
| "fl_mul NInf (Fin b) = inf_signed (- b)"
| "fl_mul PInf PInf = PInf"
| "fl_mul NInf NInf = PInf"
| "fl_mul PInf NInf = NInf"
| "fl_mul NInf PInf = NInf"

text \<open>Division as numpy's \<open>true_divide\<close>: a zero divisor gives an infinity or NaN
  (with a warning), never an exception.\<close>

fun fl_div :: "fl \<Rightarrow> fl \<Rightarrow> fl" where
  "fl_div NaN _ = NaN"
| "fl_div _ NaN = NaN"
| "fl_div (Fin a) (Fin b) = (if b = 0 then inf_signed a else Fin (a / b))"
| "fl_div (Fin a) PInf = Fin 0"
| "fl_div (Fin a) NInf = Fin 0"
| "fl_div PInf (Fin b) = (if b < 0 then NInf else PInf)"
| "fl_div NInf (Fin b) = (if b < 0 then PInf else NInf)"
| "fl_div PInf PInf = NaN"
| "fl_div NInf NInf = NaN"
| "fl_div PInf NInf = NaN"
| "fl_div NInf PInf = NaN"

definition fl_of_int :: "int \<Rightarrow> fl" where
  "fl_of_int i = Fin (of_int i)"

definition fl_sum :: "fl list \<Rightarrow> fl" where
  "fl_sum xs = foldl fl_add (Fin 0) xs"

definition dot :: "fl list \<Rightarrow> fl list \<Rightarrow> fl" where
  "dot xs ys = fl_sum (map2 fl_mul xs ys)"

text \<open>\<open>astype(int)\<close> on a float: the C cast, which truncates toward zero. On a
  non-finite value the cast yields the smallest int64 on the usual platforms; \<open>fit\<close>
  never casts one.\<close>

fun astype_int :: "fl \<Rightarrow> int" where
  "astype_int (Fin q) = (if 0 \<le> q then \<lfloor>q\<rfloor> else \<lceil>q\<rceil>)"
| "astype_int _ = - (2 ^ 63)"

subsection \<open>Arrays\<close>

text \<open>
  A two-dimensional array of shape \<open>(n, d)\<close> is the list of its \<open>n\<close> rows together with
  \<open>d\<close>, which the rows alone would lose when \<open>n = 0\<close>. An array read from numpy has
  every row of length \<open>d\<close>.
\<close>

datatype 'a array2 = Array2 (ncols: nat) (rows: "'a list list")

definition len :: "'a array2 \<Rightarrow> nat" where
  "len a = length (rows a)"

definition array2_map :: "('a \<Rightarrow> 'b) \<Rightarrow> 'a array2 \<Rightarrow> 'b array2" where
  "array2_map f a = Array2 (ncols a) (map (map f) (rows a))"

definition column :: "'a array2 \<Rightarrow> nat \<Rightarrow> 'a list" where
  "column a j = map (\<lambda>r. r ! j) (rows a)"

definition columns :: "'a array2 \<Rightarrow> 'a list list" where
  "columns a = map (column a) [0..<ncols a]"

definition of_columns :: "nat \<Rightarrow> 'a list list \<Rightarrow> 'a array2" where
  "of_columns n cs = Array2 (length cs) (map (\<lambda>i. map (\<lambda>c. c ! i) cs) [0..<n])"

text \<open>\<open>v.reshape(-1, 1)\<close> of a one-dimensional \<open>v\<close>, and \<open>a.T\<close>.\<close>

definition reshape_col :: "'a list \<Rightarrow> 'a array2" where
  "reshape_col v = Array2 1 (map (\<lambda>x. [x]) v)"

definition transpose_T :: "'a array2 \<Rightarrow> 'a array2" where
  "transpose_T a = Array2 (len a) (columns a)"

text \<open>Python's \<open>a[start:end]\<close> on the first axis: a negative bound counts from the
  end, both bounds are clamped to \<open>[0, n]\<close>, and an empty range gives no rows.\<close>

definition slice_index :: "nat \<Rightarrow> int \<Rightarrow> nat" where
  "slice_index n i = (if i < 0 then nat (max 0 (i + int n)) else min (nat i) n)"

definition slice_rows :: "'a array2 \<Rightarrow> int \<Rightarrow> int \<Rightarrow> 'a array2" where
  "slice_rows a start end' =
     (let s = slice_index (len a) start; e = slice_index (len a) end'
      in Array2 (ncols a) (take (e - s) (drop s (rows a))))"

text \<open>\<open>np.argsort\<close> of one column: the indices that sort it. Equal values keep their
  original order here (numpy's default sort does not promise it).\<close>

definition argsort :: "'a::linorder list \<Rightarrow> int list" where
  "argsort xs = map (\<lambda>p. int (snd p)) (sort_key fst (zip xs [0..<length xs]))"

definition argsort_axis0 :: "'a::linorder array2 \<Rightarrow> int array2" where
  "argsort_axis0 a = of_columns (len a) (map argsort (columns a))"

text \<open>\<open>np.mean(a, axis=0)\<close>: one mean per column, the sum divided by the number of
  rows; with no rows it is \<open>0 / 0\<close>, NaN.\<close>

definition mean_axis0 :: "int array2 \<Rightarrow> fl list" where
  "mean_axis0 a =
     map (\<lambda>c. fl_div (fl_sum (map fl_of_int c)) (fl_of_int (int (len a)))) (columns a)"

datatype exc = NotEnoughPoints | LinAlgError | ValueError | TypeError | OverflowError

text \<open>The operator \<open>@\<close> on two-dimensional arrays: the inner dimensions must agree.\<close>

definition matmul :: "fl array2 \<Rightarrow> fl array2 \<Rightarrow> exc + fl array2" where
  "matmul a b =
     (if ncols a \<noteq> len b then Inl ValueError
      else Inr (Array2 (ncols b) (map (\<lambda>r. map (\<lambda>c. dot r c) (columns b)) (rows a))))"

subsection \<open>\<open>np.cov\<close>\<close>

text \<open>
  What \<open>np.cov\<close> returns is either two-dimensional or, after its final \<open>squeeze\<close> of a
  \<open>1 \<times> 1\<close> result, zero-dimensional.
\<close>

datatype 'a ndarray = Arr0 'a | Arr2 "'a array2"

text \<open>
  \<open>np.cov(m)\<close> with its defaults (\<open>rowvar=True\<close>, \<open>ddof = 1\<close>): each ROW of \<open>m\<close> is a
  variable and each column an observation. Following numpy: no rows give the empty
  \<open>0 \<times> 0\<close> array; otherwise the row means are subtracted, \<open>c = X X\<^sup>T\<close>, and \<open>c\<close> is
  multiplied by \<open>1 / fact\<close> where \<open>fact\<close> is the number of columns less one, replaced by
  \<open>0.0\<close> when that is not positive.
\<close>

definition np_cov :: "int array2 \<Rightarrow> fl ndarray" where
  "np_cov m =
     (let X = map (map fl_of_int) (rows m); n = length X; d = ncols m in
      if n = 0 then Arr2 (Array2 0 [])
      else
        let avg = map (\<lambda>r. fl_div (fl_sum r) (fl_of_int (int d))) X;
            fact = (if int d - 1 \<le> 0 then 0 else int d - 1);
            Xc = map2 (\<lambda>r a. map (\<lambda>x. fl_sub x a) r) X avg;
            c = map (\<lambda>ri. map (\<lambda>rj. dot ri rj) Xc) Xc;
            c' = map (map (\<lambda>x. fl_mul x (fl_div (Fin 1) (fl_of_int fact)))) c
        in if n = 1 then Arr0 (c' ! 0 ! 0) else Arr2 (Array2 n c'))"

subsection \<open>\<open>numpy.linalg.inv\<close>\<close>

text \<open>
  Inversion by elimination on \<open>[A | I]\<close>, exact on finite values. As in LAPACK, a pivot
  is any entry that is not zero (NaN is not zero), and a column without one makes the
  matrix singular. An array of fewer than two dimensions or a non-square one is refused
  with the same exception.
\<close>

definition find_pivot :: "nat \<Rightarrow> fl list list \<Rightarrow> nat option" where
  "find_pivot k m = find (\<lambda>i. m ! i ! k \<noteq> Fin 0) [k..<length m]"

definition swap_rows :: "nat \<Rightarrow> nat \<Rightarrow> 'a list \<Rightarrow> 'a list" where
  "swap_rows i j m = m[i := m ! j, j := m ! i]"

definition reduce_col :: "nat \<Rightarrow> fl list list \<Rightarrow> fl list list" where
  "reduce_col k m =
     (let p = m ! k; pk = map (\<lambda>x. fl_div x (p ! k)) p
      in map (\<lambda>i. if i = k then pk
                   else map2 (\<lambda>x y. fl_sub x (fl_mul (m ! i ! k) y)) (m ! i) pk)
             [0..<length m])"

fun eliminate :: "nat list \<Rightarrow> fl list list \<Rightarrow> fl list list option" where
  "eliminate [] m = Some m"
| "eliminate (k # ks) m =
     (case find_pivot k m of
        None \<Rightarrow> None
      | Some p \<Rightarrow> eliminate ks (reduce_col k (swap_rows k p m)))"

definition identity :: "nat \<Rightarrow> fl list list" where
  "identity n = map (\<lambda>i. map (\<lambda>j. if i = j then Fin 1 else Fin 0) [0..<n]) [0..<n]"

definition linalg_inv :: "fl ndarray \<Rightarrow> exc + fl array2" where
  "linalg_inv c =
     (case c of
        Arr0 x \<Rightarrow> Inl LinAlgError
      | Arr2 a \<Rightarrow>
          if len a \<noteq> ncols a then Inl LinAlgError
          else (case eliminate [0..<len a] (map2 (@) (rows a) (identity (len a))) of
                  None \<Rightarrow> Inl LinAlgError
                | Some m \<Rightarrow> Inr (Array2 (len a) (map (drop (len a)) m))))"

subsection \<open>The class\<close>

record CostRank =
  cov :: "fl ndarray option"
  ranks :: "int array2 option"
  min_size :: int

text \<open>\<open>__init__\<close>: both arrays are \<open>None\<close>, \<open>min_size\<close> is 2.\<close>

definition CostRank_init :: CostRank where
  "CostRank_init = \<lparr>cov = None, ranks = None, min_size = 2\<rparr>"

text \<open>The signal is an array of shape \<open>(n_samples,)\<close> or \<open>(n_samples, n_features)\<close>.\<close>

datatype 'a signal = Sig1 "'a list" | Sig2 "'a array2"

text \<open>Lines 95-96: a one-dimensional signal becomes a single column.\<close>

fun signal_2d :: "'a signal \<Rightarrow> 'a array2" where
  "signal_2d (Sig1 xs) = reshape_col xs"
| "signal_2d (Sig2 a) = a"

text \<open>Lines 99, 101 and 103, one definition per local variable; \<open>fit_centered\<close> is
  the value of \<open>norm_ranks - (1 / 2)\<close> before the cast. The division is Python 3's
  true division, so \<open>1 / 2\<close> is \<open>0.5\<close> and \<open>ranks / len(signal)\<close> is a float array.\<close>

definition fit_ranks :: "'a::linorder signal \<Rightarrow> int array2" where
  "fit_ranks signal = array2_map (\<lambda>i. i + 1) (argsort_axis0 (signal_2d signal))"

definition fit_norm_ranks :: "'a::linorder signal \<Rightarrow> fl array2" where
  "fit_norm_ranks signal =
     array2_map (\<lambda>r. fl_div (fl_of_int r) (fl_of_int (int (len (signal_2d signal)))))
       (fit_ranks signal)"

definition fit_centered :: "'a::linorder signal \<Rightarrow> fl array2" where
  "fit_centered signal = array2_map (\<lambda>x. fl_sub x (Fin (1 / 2))) (fit_norm_ranks signal)"

definition fit_centered_ranks :: "'a::linorder signal \<Rightarrow> int array2" where
  "fit_centered_ranks signal = array2_map astype_int (fit_centered signal)"

definition fit :: "CostRank \<Rightarrow> 'a::linorder signal \<Rightarrow> CostRank" where
  "fit self signal =
     (let centered_ranks = fit_centered_ranks signal;
          cov = np_cov centered_ranks
      in self\<lparr>cov := Some cov, ranks := Some centered_ranks\<rparr>)"

text \<open>
  \<open>error\<close> returns its result together with the instance, which it never assigns to.
  The exceptions are those of the source in the order it can raise them: the size test
  (line 125), the subscript of \<open>self.ranks\<close> when it is still \<open>None\<close> (line 128), then on
  line 132 the conversion of the Python integer \<open>-(end - start)\<close> to a float for the
  product with \<open>mean.T\<close>, the call of \<open>inv\<close>, which Python evaluates after that left
  operand and before the first \<open>@\<close>, and the two products.
\<close>

text \<open>A Python integer becomes a float64 when it multiplies a float array. The
  conversion raises \<open>OverflowError\<close> when the integer rounds beyond the largest double,
  that is from \<open>2^1024 - 2^970\<close> on in absolute value.\<close>

definition float_of_pyint :: "int \<Rightarrow> exc + fl" where
  "float_of_pyint k =
     (if \<bar>k\<bar> < 2 ^ 1024 - 2 ^ 970 then Inr (fl_of_int k) else Inl OverflowError)"

definition bind_exc :: "exc + 'a \<Rightarrow> ('a \<Rightarrow> exc + 'b) \<Rightarrow> exc + 'b" where
  "bind_exc m f = (case m of Inl e \<Rightarrow> Inl e | Inr x \<Rightarrow> f x)"

text \<open>\<open>inv(self.cov)\<close>; on an instance whose \<open>cov\<close> is still \<open>None\<close> numpy sees a
  zero-dimensional array and refuses it.\<close>

definition inv_cov :: "CostRank \<Rightarrow> exc + fl array2" where
  "inv_cov self = (case cov self of None \<Rightarrow> Inl LinAlgError | Some c \<Rightarrow> linalg_inv c)"

definition error :: "CostRank \<Rightarrow> int \<Rightarrow> int \<Rightarrow> (exc + fl array2) \<times> CostRank" where
  "error self start end' =
     (if end' - start < min_size self then (Inl NotEnoughPoints, self)
      else
        (case ranks self of
           None \<Rightarrow> (Inl TypeError, self)
         | Some r \<Rightarrow>
             (let mean = reshape_col (mean_axis0 (slice_rows r start end'))
              in (bind_exc (float_of_pyint (- (end' - start))) (\<lambda>k.
                  let lhs = array2_map (fl_mul k) (transpose_T mean)
                  in bind_exc (inv_cov self) (\<lambda>ci.
                     bind_exc (matmul lhs ci) (\<lambda>p.
                     bind_exc (matmul p mean) (\<lambda>q.
                     Inr (array2_map (\<lambda>x. fl_div x (fl_of_int (int (len r)))) q))))),
                  self))))"

text \<open>\<open>np.zeros((n, d))\<close> as an integer array, to state what \<open>fit\<close> stores.\<close>

definition zeros :: "nat \<Rightarrow> nat \<Rightarrow> int array2" where
  "zeros n d = Array2 d (replicate n (replicate d 0))"

text \<open>The \<open>shape\<close> attribute of what \<open>np.cov\<close> returns.\<close>

definition ndarray_shape :: "'a ndarray \<Rightarrow> nat list" where
  "ndarray_shape c = (case c of Arr0 x \<Rightarrow> [] | Arr2 a \<Rightarrow> [len a, ncols a])"

section \<open>Properties\<close>

subsection \<open>The rank transform\<close>

lemma argsort_length: "length (argsort xs) = length xs"
  by (simp add: argsort_def)

text \<open>Every value of an argsort is an index of the column.\<close>

lemma argsort_nth_bounds:
  assumes "i < length xs"
  shows "0 \<le> argsort xs ! i \<and> argsort xs ! i < int (length xs)"
proof -
  let ?ps = "sort_key fst (zip xs [0..<length xs])"
  have len: "length ?ps = length xs" by simp
  with assms have "?ps ! i \<in> set ?ps" by (metis nth_mem)
  then have "?ps ! i \<in> set (zip xs [0..<length xs])" by simp
  then have "snd (?ps ! i) \<in> set [0..<length xs]"
    by (metis prod.collapse set_zip_rightD)
  then have "snd (?ps ! i) < length xs" by simp
  moreover have "argsort xs ! i = int (snd (?ps ! i))"
    using assms len by (simp add: argsort_def)
  ultimately show ?thesis by simp
qed

text \<open>An index \<open>k\<close> of \<open>0..n-1\<close> becomes \<open>(k + 1) / n - 1 / 2\<close>, which lies in
  \<open>(-1/2, 1/2]\<close>, and the cast sends it to 0.\<close>

lemma astype_int_centered:
  assumes "0 \<le> k" and "k < int n"
  shows "astype_int (fl_sub (fl_div (fl_of_int (k + 1)) (fl_of_int (int n))) (Fin (1 / 2))) = 0"
proof -
  define q :: rat where "q = of_int (k + 1) / of_nat n"
  have n0: "0 < n" using assms by linarith
  have qpos: "0 < q" using assms n0 by (simp add: q_def)
  have qle: "q \<le> 1" using assms n0 by (simp add: q_def)
  have eq: "fl_sub (fl_div (fl_of_int (k + 1)) (fl_of_int (int n))) (Fin (1 / 2)) = Fin (q - 1 / 2)"
    using n0 by (simp add: fl_of_int_def fl_sub_def q_def)
  show ?thesis
  proof (cases "0 \<le> q - 1 / 2")
    case True
    then have "\<lfloor>q - 1 / 2\<rfloor> = 0" using qle by (simp add: floor_eq_iff)
    with True eq show ?thesis by simp
  next
    case False
    then have "\<lceil>q - 1 / 2\<rceil> = 0" using qpos by (simp add: ceiling_eq_iff)
    with False eq show ?thesis by simp
  qed
qed

lemma map_eq_replicate:
  assumes "\<And>x. x \<in> set xs \<Longrightarrow> f x = c"
  shows "map f xs = replicate (length xs) c"
  using assms by (induction xs) auto

lemma length_column: "length (column a j) = len a"
  by (simp add: column_def len_def)

lemma fit_centered_ranks_zero:
  "fit_centered_ranks signal =
     Array2 (ncols (signal_2d signal))
       (replicate (len (signal_2d signal)) (replicate (ncols (signal_2d signal)) 0))"
proof -
  define a where "a = signal_2d signal"
  define n where "n = len a"
  define d where "d = ncols a"
  define g where
    "g = (\<lambda>k. astype_int (fl_sub (fl_div (fl_of_int (k + 1)) (fl_of_int (int n))) (Fin (1 / 2))))"
  define cs where "cs = map argsort (columns a)"
  have lcs: "length cs = d" by (simp add: cs_def columns_def d_def)
  have unfold: "fit_centered_ranks signal =
      Array2 d (map (\<lambda>i. map (\<lambda>c. g (c ! i)) cs) [0..<n])"
    by (simp add: fit_centered_ranks_def fit_centered_def fit_norm_ranks_def fit_ranks_def
        argsort_axis0_def of_columns_def array2_map_def a_def n_def g_def cs_def d_def
        columns_def)
  have entry: "g (c ! i) = 0" if "c \<in> set cs" and "i < n" for c i
  proof -
    from that(1) obtain j where c: "c = argsort (column a j)"
      by (auto simp: cs_def columns_def)
    have "i < length (column a j)" using that(2) by (simp add: length_column n_def)
    from argsort_nth_bounds [OF this]
    have "0 \<le> c ! i \<and> c ! i < int n" by (simp add: c length_column n_def)
    then show ?thesis unfolding g_def by (simp add: astype_int_centered)
  qed
  have "map (\<lambda>i. map (\<lambda>c. g (c ! i)) cs) [0..<n] = replicate n (replicate d 0)"
  proof -
    have "map (\<lambda>c. g (c ! i)) cs = replicate d 0" if "i \<in> set [0..<n]" for i
      using map_eq_replicate [of cs "\<lambda>c. g (c ! i)" 0] entry that lcs by simp
    from map_eq_replicate [of "[0..<n]" "\<lambda>i. map (\<lambda>c. g (c ! i)) cs", OF this]
    show ?thesis by simp
  qed
  with unfold show ?thesis by (simp add: a_def n_def d_def)
qed

lemma set_argsort: "set (argsort xs) = int ` {0..<length xs}"
proof -
  have m: "map snd (zip xs [0..<length xs]) = [0..<length xs]"
    by (rule map_snd_zip) simp
  have "snd ` set (zip xs [0..<length xs]) = set (map snd (zip xs [0..<length xs]))"
    by (simp only: set_map)
  also have "\<dots> = {0..<length xs}" by (simp only: m set_upt)
  finally have s: "snd ` set (zip xs [0..<length xs]) = {0..<length xs}" .
  have "set (argsort xs) = int ` snd ` set (zip xs [0..<length xs])"
    by (simp add: argsort_def image_image)
  with s show ?thesis by (simp only:)
qed

text \<open>Before the cast, every centered value lies in \<open>(-1/2, 1/2]\<close>, and every
  column of a signal with at least one observation holds the value \<open>1/2\<close>: it is the
  entry whose argsort is \<open>n - 1\<close>.\<close>

lemma center_value:
  assumes "0 \<le> k" and "k < int n"
  shows "fl_sub (fl_div (fl_of_int (k + 1)) (fl_of_int (int n))) (Fin (1 / 2)) =
           Fin (of_int (k + 1) / of_nat n - 1 / 2)"
  using assms by (simp add: fl_of_int_def fl_sub_def)

lemma fit_centered_column:
  assumes "j < ncols (signal_2d signal)"
  shows "column (fit_centered signal) j =
           map (\<lambda>k. fl_sub (fl_div (fl_of_int (k + 1))
                                (fl_of_int (int (len (signal_2d signal))))) (Fin (1 / 2)))
             (argsort (column (signal_2d signal) j))"
proof -
  define a where "a = signal_2d signal"
  define n where "n = len a"
  define cs where "cs = map argsort (columns a)"
  define center where
    "center = (\<lambda>k. fl_sub (fl_div (fl_of_int (k + 1)) (fl_of_int (int n))) (Fin (1 / 2)))"
  have j: "j < length cs" using assms by (simp add: cs_def columns_def a_def)
  have csj: "cs ! j = argsort (column a j)"
    using assms by (simp add: cs_def columns_def a_def)
  have lj: "length (cs ! j) = n"
    by (simp add: csj argsort_length length_column n_def)
  have "column (fit_centered signal) j = map (\<lambda>i. center (cs ! j ! i)) [0..<n]"
    using j
    by (simp add: fit_centered_def fit_norm_ranks_def fit_ranks_def argsort_axis0_def
        of_columns_def array2_map_def column_def center_def a_def n_def cs_def)
  also have "\<dots> = map center (map (\<lambda>i. cs ! j ! i) [0..<length (cs ! j)])"
    by (simp add: lj)
  also have "\<dots> = map center (cs ! j)" by (simp only: map_nth)
  finally show ?thesis by (simp add: csj a_def n_def center_def)
qed

lemma fit_centered_range:
  assumes "j < ncols (signal_2d signal)" and "x \<in> set (column (fit_centered signal) j)"
  shows "\<exists>q. x = Fin q \<and> - (1 / 2) < q \<and> q \<le> 1 / 2"
proof -
  define n where "n = len (signal_2d signal)"
  from assms obtain k where k: "k \<in> set (argsort (column (signal_2d signal) j))"
    and x: "x = fl_sub (fl_div (fl_of_int (k + 1)) (fl_of_int (int n))) (Fin (1 / 2))"
    by (auto simp: fit_centered_column n_def)
  from k have kb: "0 \<le> k" "k < int n"
    by (auto simp: set_argsort length_column n_def)
  then have n0: "0 < n" by linarith
  define q :: rat where "q = of_int (k + 1) / of_nat n"
  have "0 < q" using kb n0 by (simp add: q_def)
  moreover have "q \<le> 1" using kb n0 by (simp add: q_def)
  moreover have "x = Fin (q - 1 / 2)" using kb by (simp add: x center_value q_def)
  ultimately show ?thesis by simp
qed

lemma fit_centered_boundary:
  assumes "j < ncols (signal_2d signal)" and "1 \<le> len (signal_2d signal)"
  shows "Fin (1 / 2) \<in> set (column (fit_centered signal) j)"
proof -
  define n where "n = len (signal_2d signal)"
  define center where
    "center = (\<lambda>k. fl_sub (fl_div (fl_of_int (k + 1)) (fl_of_int (int n))) (Fin (1 / 2)))"
  have n0: "0 < n" using assms by (simp add: n_def)
  then have "n - 1 \<in> {0..<n}" by simp
  then have "int (n - 1) \<in> int ` {0..<n}" by (rule imageI)
  then have "int (n - 1) \<in> set (argsort (column (signal_2d signal) j))"
    by (simp only: set_argsort length_column n_def)
  then have "center (int (n - 1)) \<in> set (column (fit_centered signal) j)"
    using assms(1) by (simp add: fit_centered_column n_def center_def)
  moreover have "center (int (n - 1)) = Fin (1 / 2)"
    using n0 unfolding center_def by (subst center_value) (simp_all add: of_nat_diff)
  ultimately show ?thesis by simp
qed

text \<open>
  Claim C4, at the signal \<open>[1, 5, 2, 6, 3, 4]\<close>: the values of the three local variables
  of lines 99 to 103 before the cast. The normalised values reach 1 and the centered
  values reach \<open>1/2\<close>, outside the intervals \<open>[0, 1)\<close> and \<open>[-0.5, 0.5)\<close> that the claim
  and the comments of the source give. The first array is the argsort plus one: the
  second observation, 5, is the fifth in sorted order and gets 3.
\<close>

theorem rank_range_failing_input:
  "fit_ranks (Sig1 [1, 5, 2, 6, 3, 4 :: int]) = Array2 1 [[1], [3], [5], [6], [2], [4]]
   \<and> fit_norm_ranks (Sig1 [1, 5, 2, 6, 3, 4 :: int]) =
       Array2 1 [[Fin (1 / 6)], [Fin (1 / 2)], [Fin (5 / 6)], [Fin 1], [Fin (1 / 3)], [Fin (2 / 3)]]
   \<and> fit_centered (Sig1 [1, 5, 2, 6, 3, 4 :: int]) =
       Array2 1 [[Fin (- (1 / 3))], [Fin 0], [Fin (1 / 3)], [Fin (1 / 2)], [Fin (- (1 / 6))],
                 [Fin (1 / 6)]]"
  by code_simp

text \<open>
  Claim C5, as amended. The claim says that the cast leaves the boundary value nonzero.
  It does not: on the signal \<open>[30, 10, 20]\<close> the centered values are
  \<open>1/6, 1/2, -1/6\<close>, the boundary \<open>1/2\<close> among them, and the cast array is zero
  everywhere.
\<close>

theorem coercion_boundary_counterexample:
  "fit_centered (Sig1 [30, 10, 20 :: int]) =
     Array2 1 [[Fin (1 / 6)], [Fin (1 / 2)], [Fin (- (1 / 6))]]
   \<and> fit_centered_ranks (Sig1 [30, 10, 20 :: int]) = Array2 1 [[0], [0], [0]]"
  by code_simp

text \<open>
  Claim C5, amended: for every signal the cast of the centered ranks, a truncation toward
  zero, sends every centered value to 0, the boundary value \<open>1/2\<close> included; no entry
  stays nonzero.
\<close>

theorem coercion_collapses_every_value:
  "array2_map astype_int (fit_centered signal) =
     zeros (len (signal_2d signal)) (ncols (signal_2d signal))
   \<and> astype_int (Fin (1 / 2)) = 0"
proof -
  have "\<lfloor>1 / 2 :: rat\<rfloor> = 0" by (simp add: floor_eq_iff)
  then show ?thesis
    using fit_centered_ranks_zero [of signal]
    by (simp add: fit_centered_ranks_def zeros_def)
qed

lemma fit_zeros:
  "fit self signal =
     self\<lparr>cov := Some (np_cov (zeros (len (signal_2d signal)) (ncols (signal_2d signal)))),
          ranks := Some (zeros (len (signal_2d signal)) (ncols (signal_2d signal)))\<rparr>"
  by (simp add: fit_def Let_def fit_centered_ranks_zero zeros_def)

text \<open>
  Claim C9: for every signal, one- or two-dimensional and whatever its values, \<open>fit\<close>
  stores the all-zero array of the signal's shape as \<open>ranks\<close>, and the covariance it
  stores is \<open>np.cov\<close> of that all-zero array.
\<close>

theorem fit_stores_zero_ranks:
  "fit self signal =
     self\<lparr>cov := Some (np_cov (zeros (len (signal_2d signal)) (ncols (signal_2d signal)))),
          ranks := Some (zeros (len (signal_2d signal)) (ncols (signal_2d signal)))\<rparr>"
  by (simp add: fit_def Let_def fit_centered_ranks_zero zeros_def)

subsection \<open>The size test of \<open>error\<close>\<close>

lemma error_below_min_size:
  "end' - start < min_size self \<Longrightarrow> error self start end' = (Inl NotEnoughPoints, self)"
  by (simp add: error_def)

lemma snd_error: "snd (error self start end') = self"
  by (simp add: error_def Let_def split: option.split)

lemma min_size_fit: "min_size (fit self signal) = min_size self"
  by (simp add: fit_def Let_def)

text \<open>
  Claim C2: on every fitted instance, a segment with \<open>end - start < 2\<close> makes \<open>error\<close>
  fail with \<open>NotEnoughPoints\<close> and leaves the instance as it was. That nothing is
  computed shows in the outcome not depending on the arrays: it is the same whatever
  \<open>cov\<close> and \<open>ranks\<close> hold.
\<close>

theorem error_short_segment_fitted:
  assumes "end' - start < 2"
  shows "error (fit CostRank_init signal) start end' =
           (Inl NotEnoughPoints, fit CostRank_init signal)
       \<and> (\<forall>c r. fst (error ((fit CostRank_init signal)\<lparr>cov := c, ranks := r\<rparr>) start end')
                    = Inl NotEnoughPoints)"
proof -
  have "min_size (fit CostRank_init signal) = 2"
    by (simp add: min_size_fit CostRank_init_def)
  with assms show ?thesis by (simp add: error_below_min_size)
qed

theorem error_short_segment_fitted_witness:
  "(1::int) - 0 < 2 \<and>
   error (fit CostRank_init (Sig1 [1, 5, 2, 6, 3, 4 :: int])) 0 1 =
     (Inl NotEnoughPoints, fit CostRank_init (Sig1 [1, 5, 2, 6, 3, 4 :: int]))"
  using error_short_segment_fitted [of 1 0 "Sig1 [1, 5, 2, 6, 3, 4 :: int]"] by simp

text \<open>
  Claim C10: the size test comes before any read of the fitted arrays, so a segment with
  \<open>end - start < 2\<close> gives \<open>NotEnoughPoints\<close> on an instance that was never fitted.
\<close>

theorem error_short_segment_unfitted:
  "end' - start < 2 \<Longrightarrow> error CostRank_init start end' = (Inl NotEnoughPoints, CostRank_init)"
  by (simp add: error_below_min_size CostRank_init_def)

theorem error_short_segment_unfitted_witness:
  "(3::int) - 3 < 2 \<and> error CostRank_init 3 3 = (Inl NotEnoughPoints, CostRank_init)"
  using error_short_segment_unfitted [of 3 3] by simp

text \<open>With a long enough segment the unfitted instance fails on the subscript of
  \<open>self.ranks\<close> instead.\<close>

lemma error_unfitted_long:
  "2 \<le> end' - start \<Longrightarrow> error CostRank_init start end' = (Inl TypeError, CostRank_init)"
  by (simp add: error_def CostRank_init_def)

text \<open>
  Claim C8: \<open>error\<close> never changes the instance, and a second call with the same
  arguments, made on the instance the first call leaves, returns the same outcome.
\<close>

theorem error_pure:
  "snd (error self start end') = self \<and>
   error (snd (error self start end')) start end' = error self start end'"
  by (simp add: snd_error)

subsection \<open>The covariance that \<open>fit\<close> stores\<close>

lemma fl_sum_zeros: "fl_sum (replicate k (Fin 0)) = Fin 0"
  unfolding fl_sum_def by (induction k) auto

lemma len_zeros: "len (zeros n d) = n" and ncols_zeros: "ncols (zeros n d) = d"
  by (simp_all add: zeros_def len_def)

text \<open>With two rows or more, \<open>np.cov\<close> returns a square array with one row and one
  column per ROW of its argument; with a single row it returns a zero-dimensional
  array.\<close>

lemma np_cov_shape:
  assumes "2 \<le> len m"
  shows "\<exists>c. np_cov m = Arr2 c \<and> len c = len m \<and> ncols c = len m"
  using assms by (simp add: np_cov_def Let_def len_def)

lemma np_cov_single_row: "len m = 1 \<Longrightarrow> \<exists>x. np_cov m = Arr0 x"
  by (auto simp: np_cov_def Let_def len_def)

text \<open>Of the all-zero array with at least two columns it is the zero matrix.\<close>

lemma np_cov_zeros:
  assumes "2 \<le> n" and "2 \<le> d"
  shows "np_cov (zeros n d) = Arr2 (Array2 n (replicate n (replicate n (Fin 0))))"
proof -
  have d0: "rat_of_nat d \<noteq> 0" "int d - 1 > 0" using assms by auto
  have z: "fl_div (Fin 0) (fl_of_int (int d)) = Fin 0"
    using d0 by (simp add: fl_of_int_def)
  have m: "fl_mul (Fin 0) (fl_div (Fin 1) (fl_of_int (int d - 1))) = Fin 0"
    using d0 by (simp add: fl_of_int_def)
  have s: "fl_sub (Fin 0) (Fin 0) = Fin 0" by (simp add: fl_sub_def)
  show ?thesis
    using assms d0
    by (simp add: np_cov_def zeros_def Let_def fl_of_int_def [of 0] fl_sum_zeros z m s dot_def)
qed

lemma fit_cov_shape:
  assumes "2 \<le> len (signal_2d signal)"
  shows "map_option ndarray_shape (cov (fit self signal)) =
           Some [len (signal_2d signal), len (signal_2d signal)]"
proof -
  from np_cov_shape [of "zeros (len (signal_2d signal)) (ncols (signal_2d signal))"] assms
  obtain c where "np_cov (zeros (len (signal_2d signal)) (ncols (signal_2d signal))) = Arr2 c"
    and "len c = len (signal_2d signal)" and "ncols c = len (signal_2d signal)"
    by (auto simp: len_zeros)
  then show ?thesis by (simp add: fit_zeros ndarray_shape_def)
qed

lemma ncols_slice_rows: "ncols (slice_rows a s e) = ncols a"
  by (simp add: slice_rows_def Let_def)

lemma length_mean_axis0: "length (mean_axis0 a) = ncols a"
  by (simp add: mean_axis0_def columns_def)

lemma len_reshape_col: "len (reshape_col v) = length v"
  by (simp add: reshape_col_def len_def)

text \<open>
  Claim C3, at a signal of four observations with two features: the stored covariance has
  shape \<open>(4, 4)\<close>, one variable per observation, while the mean rank vector of a
  segment has length 2, one entry per feature.
\<close>

theorem cov_axis_failing_input:
  "map_option ndarray_shape
     (cov (fit CostRank_init (Sig2 (Array2 2 [[4, 1], [2, 3], [9, 7], [5, 5 :: int]]))))
     = Some [4, 4]
   \<and> map_option (\<lambda>r. length (mean_axis0 (slice_rows r 0 2)))
        (ranks (fit CostRank_init (Sig2 (Array2 2 [[4, 1], [2, 3], [9, 7], [5, 5 :: int]]))))
     = Some 2"
  by code_simp

subsection \<open>Inversion\<close>

lemma length_swap_rows: "length (swap_rows i j m) = length m"
  by (simp add: swap_rows_def)

lemma length_reduce_col: "length (reduce_col k m) = length m"
  by (simp add: reduce_col_def Let_def)

lemma eliminate_length: "eliminate ks m = Some m' \<Longrightarrow> length m' = length m"
  by (induction ks arbitrary: m)
     (auto simp: length_swap_rows length_reduce_col split: option.splits)

lemma linalg_inv_len: "linalg_inv (Arr2 a) = Inr r \<Longrightarrow> len r = len a"
  by (auto simp: linalg_inv_def len_def identity_def dest!: eliminate_length
        split: if_splits option.splits)

lemma linalg_inv_error: "linalg_inv c = Inl e \<Longrightarrow> e = LinAlgError"
  by (auto simp: linalg_inv_def split: ndarray.splits if_splits option.splits)

text \<open>The zero matrix has no pivot in its first column.\<close>

lemma linalg_inv_zero_matrix:
  assumes "1 \<le> n"
  shows "linalg_inv (Arr2 (Array2 n (replicate n (replicate n (Fin 0))))) = Inl LinAlgError"
proof -
  let ?aug = "map2 (@) (replicate n (replicate n (Fin 0))) (identity n)"
  have la: "length ?aug = n" by (simp add: identity_def)
  have col0: "?aug ! i ! 0 = Fin 0" if "i < n" for i
    using that assms by (simp add: identity_def nth_append)
  have "find_pivot 0 ?aug = None"
    unfolding find_pivot_def la by (simp add: find_None_iff col0)
  moreover have "[0..<n] = 0 # [1..<n]" using assms by (simp add: upt_conv_Cons)
  ultimately have "eliminate [0..<n] ?aug = None" by simp
  then show ?thesis by (simp add: linalg_inv_def len_def)
qed

text \<open>Every signal with at least one observation and at least two features is fitted
  to a covariance that \<open>inv\<close> refuses.\<close>

lemma fit_cov_not_invertible:
  assumes "1 \<le> len (signal_2d signal)" and "2 \<le> ncols (signal_2d signal)"
  shows "linalg_inv (np_cov (fit_centered_ranks signal)) = Inl LinAlgError"
proof (cases "len (signal_2d signal) = 1")
  case True
  then have "len (fit_centered_ranks signal) = 1"
    by (simp add: fit_centered_ranks_zero len_def)
  from np_cov_single_row [OF this] show ?thesis by (auto simp: linalg_inv_def)
next
  case False
  with assms have "2 \<le> len (signal_2d signal)" by simp
  from np_cov_zeros [OF this assms(2)] linalg_inv_zero_matrix [OF assms(1)]
  show ?thesis by (simp add: fit_centered_ranks_zero zeros_def)
qed

subsection \<open>\<open>error\<close> on a fitted instance\<close>

text \<open>
  On an instance fitted to a signal with at least one observation, \<open>error\<close> returns no
  cost for any segment of admissible length. A length beyond the float range overflows.
  Otherwise either \<open>inv\<close> refuses the covariance (a single observation leaves it
  zero-dimensional; two features or more make it the zero matrix), or the covariance is
  \<open>n \<times> n\<close> while the mean has \<open>d \<noteq> n\<close> entries and the first product raises.
\<close>

lemma error_fitted_never_returns:
  assumes n1: "1 \<le> len (signal_2d signal)" and seg: "min_size self \<le> end' - start"
  shows "error (fit self signal) start end' = (Inl OverflowError, fit self signal)
       \<or> error (fit self signal) start end' = (Inl LinAlgError, fit self signal)
       \<or> error (fit self signal) start end' = (Inl ValueError, fit self signal)"
proof (cases "float_of_pyint (- (end' - start))")
  case (Inl e)
  then have "e = OverflowError" by (auto simp: float_of_pyint_def split: if_splits)
  with Inl seg show ?thesis
    by (simp add: error_def fit_zeros Let_def bind_exc_def)
next
  case (Inr k)
  define n where "n = len (signal_2d signal)"
  define d where "d = ncols (signal_2d signal)"
  define st where "st = fit self signal"
  have st: "cov st = Some (np_cov (zeros n d))" "ranks st = Some (zeros n d)"
    "min_size st = min_size self"
    by (simp_all add: st_def fit_zeros n_def d_def)
  define mean where "mean = reshape_col (mean_axis0 (slice_rows (zeros n d) start end'))"
  define lhs where "lhs = array2_map (fl_mul k) (transpose_T mean)"
  have lhs_cols: "ncols lhs = d"
    by (simp add: lhs_def array2_map_def transpose_T_def mean_def len_reshape_col
        length_mean_axis0 ncols_slice_rows ncols_zeros)
  have err: "error st start end' =
      (bind_exc (inv_cov st) (\<lambda>ci. bind_exc (matmul lhs ci) (\<lambda>p. bind_exc (matmul p mean)
         (\<lambda>q. Inr (array2_map (\<lambda>x. fl_div x (fl_of_int (int (len (zeros n d))))) q)))), st)"
    using seg Inr by (simp add: error_def st Let_def mean_def lhs_def bind_exc_def)
  have inv: "inv_cov st = linalg_inv (np_cov (zeros n d))" by (simp add: inv_cov_def st)
  show ?thesis
  proof (cases "linalg_inv (np_cov (zeros n d))")
    case (Inl e)
    then have "e = LinAlgError" by (rule linalg_inv_error)
    with Inl err inv show ?thesis by (simp add: bind_exc_def st_def)
  next
    case (Inr ci)
    have n2: "2 \<le> n"
    proof (rule ccontr)
      assume "\<not> 2 \<le> n"
      with n1 have "len (zeros n d) = 1" by (simp add: n_def len_zeros)
      from np_cov_single_row [OF this] Inr show False by (auto simp: linalg_inv_def)
    qed
    then obtain c where c: "np_cov (zeros n d) = Arr2 c" "len c = n"
      using np_cov_shape [of "zeros n d"] by (auto simp: len_zeros)
    have "len ci = n" using Inr c linalg_inv_len by auto
    moreover have "d \<noteq> n"
    proof
      assume "d = n"
      with n2 np_cov_zeros [of n d] linalg_inv_zero_matrix [of n] Inr show False by simp
    qed
    ultimately have "matmul lhs ci = Inl ValueError" by (simp add: matmul_def lhs_cols)
    with Inr err inv show ?thesis by (simp add: bind_exc_def st_def)
  qed
qed

text \<open>With two features or more the failure is the refusal of \<open>inv\<close>: the stored
  covariance is the zero matrix over the observations, whatever the signal.\<close>

lemma error_fitted_two_features:
  assumes "1 \<le> len (signal_2d signal)" and "2 \<le> ncols (signal_2d signal)"
    and "min_size self \<le> end' - start" and "\<bar>end' - start\<bar> < 2 ^ 1024 - 2 ^ 970"
  shows "error (fit self signal) start end' = (Inl LinAlgError, fit self signal)"
proof -
  have "inv_cov (fit self signal) = Inl LinAlgError"
    using fit_cov_not_invertible [OF assms(1,2)] by (simp add: inv_cov_def fit_def Let_def)
  moreover have "ranks (fit self signal) \<noteq> None" "min_size (fit self signal) = min_size self"
    by (simp_all add: fit_def Let_def)
  ultimately show ?thesis
    using assms(3,4)
    by (auto simp: error_def Let_def bind_exc_def float_of_pyint_def)
qed

text \<open>
  Claim C1, at a signal of four observations with two features and the segment
  \<open>[0, 2)\<close>. The two columns rank differently, \<open>1, 2, 3, 4\<close> and \<open>2, 3, 1, 4\<close>, and the
  covariance of the ranks with the features as variables (\<open>np.cov\<close> of the transposed
  rank array) has an inverse, so the quadratic form of the claim has a value. \<open>fit\<close>
  nevertheless stores all-zero ranks and the \<open>4 \<times> 4\<close> zero matrix, and \<open>error\<close> raises
  where the claim has it return the cost.
\<close>

theorem error_formula_failing_input:
  "fit_ranks (Sig2 (Array2 2 [[1, 3], [2, 1], [3, 2], [4, 4 :: int]])) =
     Array2 2 [[1, 2], [2, 3], [3, 1], [4, 4]]
   \<and> linalg_inv (np_cov (transpose_T
        (fit_ranks (Sig2 (Array2 2 [[1, 3], [2, 1], [3, 2], [4, 4 :: int]]))))) =
     Inr (Array2 2 [[Fin (5 / 7), Fin (- (2 / 7))], [Fin (- (2 / 7)), Fin (5 / 7)]])
   \<and> fit CostRank_init (Sig2 (Array2 2 [[1, 3], [2, 1], [3, 2], [4, 4 :: int]])) =
     \<lparr>cov = Some (Arr2 (Array2 4 [[Fin 0, Fin 0, Fin 0, Fin 0], [Fin 0, Fin 0, Fin 0, Fin 0],
                                  [Fin 0, Fin 0, Fin 0, Fin 0], [Fin 0, Fin 0, Fin 0, Fin 0]])),
      ranks = Some (Array2 2 [[0, 0], [0, 0], [0, 0], [0, 0]]),
      min_size = 2\<rparr>
   \<and> fst (error (fit CostRank_init (Sig2 (Array2 2 [[1, 3], [2, 1], [3, 2], [4, 4 :: int]])))
            0 2)
       = Inl LinAlgError"
  by code_simp

text \<open>
  Claim C6, at the constant signal \<open>[3, 3, 3, 3]\<close> and the segment \<open>[0, 2)\<close>: \<open>fit\<close>
  stores a \<open>4 \<times> 4\<close> covariance of NaN, one variable per observation with a single
  observation each; \<open>inv\<close> does not refuse it, and \<open>error\<close> raises in the product of
  the one-entry mean with the \<open>4 \<times> 4\<close> inverse, not in the inversion.
\<close>

theorem constant_signal_failing_input:
  "fit CostRank_init (Sig1 [3, 3, 3, 3 :: int]) =
     \<lparr>cov = Some (Arr2 (Array2 4 [[NaN, NaN, NaN, NaN], [NaN, NaN, NaN, NaN],
                                  [NaN, NaN, NaN, NaN], [NaN, NaN, NaN, NaN]])),
      ranks = Some (Array2 1 [[0], [0], [0], [0]]),
      min_size = 2\<rparr>
   \<and> inv_cov (fit CostRank_init (Sig1 [3, 3, 3, 3 :: int])) =
       Inr (Array2 4 [[NaN, NaN, NaN, NaN], [NaN, NaN, NaN, NaN],
                      [NaN, NaN, NaN, NaN], [NaN, NaN, NaN, NaN]])
   \<and> fst (error (fit CostRank_init (Sig1 [3, 3, 3, 3 :: int])) 0 2) = Inl ValueError"
  by code_simp

text \<open>
  Claim C7, the scenario of the signal \<open>[1, 5, 2, 6, 3, 4]\<close>: \<open>min_size\<close> is 2 and
  \<open>error(0, 1)\<close> raises \<open>NotEnoughPoints\<close>, as the claim says, but \<open>error(0, 2)\<close> and
  \<open>error(2, 4)\<close> raise as well: the covariance is \<open>6 \<times> 6\<close> and the mean has one entry.
\<close>

theorem scenario_failing_input:
  "min_size (fit CostRank_init (Sig1 [1, 5, 2, 6, 3, 4 :: int])) = 2
   \<and> fst (error (fit CostRank_init (Sig1 [1, 5, 2, 6, 3, 4 :: int])) 0 1) = Inl NotEnoughPoints
   \<and> fst (error (fit CostRank_init (Sig1 [1, 5, 2, 6, 3, 4 :: int])) 0 2) = Inl ValueError
   \<and> fst (error (fit CostRank_init (Sig1 [1, 5, 2, 6, 3, 4 :: int])) 2 4) = Inl ValueError"
  by code_simp

end
